theory Spec2Isabelle
  imports Complex_Main "HOL-Library.Log_Nat"
begin

section \<open>Data model\<close>

text \<open>
  The program computes with Python numbers. They are modelled as reals. The three
  operations that decide how many scenarios are generated (the step, the stop bound and
  the quotient inside \<open>numpy.arange\<close>) are rounded as IEEE doubles are; every other
  operation is exact. The horizon \<open>years\<close> is a Python integer.
\<close>

datatype py_error = ZeroDivisionError | ValueError

text \<open>One row of the returned data frame (the dictionary appended per year).\<close>

record yearly_record =
  Year :: int
  Stock_Sold :: real
  LOC_Used :: real
  Tax_Paid :: real
  Interest_Paid :: real
  Total_Cost :: real

text \<open>The variables the loop over the years mutates.\<close>

record loop_state =
  remaining :: real
  loc_balance :: real
  scenario_cost :: real
  scenario_detail :: "yearly_record list"

section \<open>The tax calculator\<close>

definition federal_brackets :: "real list" where
  "federal_brackets = [0, 53359, 106717, 165430, 235675]"

definition federal_rates :: "real list" where
  "federal_rates = [15 / 100, 205 / 1000, 26 / 100, 29 / 100, 33 / 100]"

definition bc_brackets :: "real list" where
  "bc_brackets = [0, 45654, 91310, 104835, 127299, 172602, 240716]"

definition bc_rates :: "real list" where
  "bc_rates = [506 / 10000, 77 / 1000, 105 / 1000, 1229 / 10000, 147 / 1000, 168 / 1000, 205 / 1000]"

text \<open>
  The \<open>for i in range(len(brackets)-1)\<close> loop of \<open>calculate_bracket_tax\<close>, on the pair
  \<open>(tax, remaining)\<close>. The \<open>else\<close> branch adds to \<open>tax\<close> and leaves the loop by
  \<open>break\<close>; it does not change \<open>remaining\<close>.
\<close>

fun bracket_loop :: "real list \<Rightarrow> real list \<Rightarrow> nat list \<Rightarrow> real \<times> real \<Rightarrow> real \<times> real" where
  "bracket_loop brackets rates [] (tax, rem) = (tax, rem)"
| "bracket_loop brackets rates (i # is) (tax, rem) =
     (let bracket_size = brackets ! (i + 1) - brackets ! i in
      if rem > bracket_size
      then bracket_loop brackets rates is (tax + bracket_size * rates ! i, rem - bracket_size)
      else (tax + rem * rates ! i, rem))"

text \<open>
  The nested function. It is called on the two tables above only, where every index
  the loop reads is in range and \<open>rates[-1]\<close> is the last rate.
\<close>

definition calculate_bracket_tax :: "real \<Rightarrow> real list \<Rightarrow> real list \<Rightarrow> real" where
  "calculate_bracket_tax amount brackets rates =
     (case bracket_loop brackets rates [0..<length brackets - 1] (0, amount) of
        (tax, rem) \<Rightarrow> if rem > 0 then tax + rem * last rates else tax)"

text \<open>The parameter \<open>province\<close> is accepted and never read.\<close>

definition calculate_tax_impact :: "real \<Rightarrow> string \<Rightarrow> real" where
  "calculate_tax_impact capital_gain province =
     (let taxable_gain = capital_gain * (1 / 2);
          federal_tax = calculate_bracket_tax taxable_gain federal_brackets federal_rates;
          provincial_tax = calculate_bracket_tax taxable_gain bc_brackets bc_rates
      in federal_tax + provincial_tax)"

section \<open>Rounding to a double\<close>

text \<open>
  A Python float is an IEEE double: 53 significant bits, round to nearest, ties to the
  even significand. \<open>exponent x\<close> is the \<open>e\<close> with \<open>2 ^ e \<le> |x| < 2 ^ (e + 1)\<close>, and
  \<open>round_double x\<close> is the multiple of \<open>2 ^ (e - 52)\<close> nearest to \<open>x\<close>. The exponent is
  not bounded: overflow and the subnormal numbers at the two ends of the range of
  doubles are not modelled.
\<close>

definition pow2 :: "int \<Rightarrow> real" where
  "pow2 e = (if 0 \<le> e then 2 ^ nat e else 1 / 2 ^ nat (- e))"

definition exponent :: "real \<Rightarrow> int" where
  "exponent x =
     (if 1 \<le> \<bar>x\<bar> then bitlen \<lfloor>\<bar>x\<bar>\<rfloor> - 1 else - bitlen (\<lceil>1 / \<bar>x\<bar>\<rceil> - 1))"

definition round_half_even :: "real \<Rightarrow> int" where
  "round_half_even m =
     (let f = \<lfloor>m\<rfloor>; d = m - of_int f
      in if d < 1 / 2 then f else if 1 / 2 < d then f + 1 else if even f then f else f + 1)"

definition round_double :: "real \<Rightarrow> real" where
  "round_double x =
     (if x = 0 then 0
      else let ulp = pow2 (exponent x - 52)
           in of_int (round_half_even (x / ulp)) * ulp)"

section \<open>The optimizer\<close>

text \<open>
  \<open>numpy.arange(start, stop, step)\<close> on Python scalars: the length is
  \<open>ceil((stop - start) / step)\<close>, the difference and the quotient computed as Python
  floats; the division raises \<open>ZeroDivisionError\<close> when \<open>step\<close> is zero. Element \<open>i\<close> is
  \<open>start + i * step\<close>.
\<close>

definition arange :: "real \<Rightarrow> real \<Rightarrow> real \<Rightarrow> py_error + real list" where
  "arange start stop step =
     (if step = 0 then Inl ZeroDivisionError
      else Inr (map (\<lambda>i. start + real i * step)
                  [0..<nat \<lceil>round_double (round_double (stop - start) / step)\<rceil>]))"

text \<open>The body of \<open>for year in range(years)\<close>.\<close>

definition year_body ::
  "real \<Rightarrow> real \<Rightarrow> real \<Rightarrow> real \<Rightarrow> real \<Rightarrow> real \<Rightarrow> loop_state \<Rightarrow> nat \<Rightarrow> loop_state" where
  "year_body total_amount stock_value capital_gain interest_rate first_year_sale yearly_sale s year =
     (let stock_sold = (if year = 0 then first_year_sale else min yearly_sale (remaining s));
          remaining' = (if year = 0 then remaining s else remaining s - stock_sold);
          year_capital_gain =
            (if stock_value > 0 then (stock_sold / stock_value) * capital_gain else 0);
          tax_paid = calculate_tax_impact year_capital_gain ''BC'';
          loc_used = total_amount - stock_sold;
          interest_paid = loc_balance s * interest_rate;
          total_year_cost = tax_paid + interest_paid
      in \<lparr>remaining = remaining',
          loc_balance = loc_used,
          scenario_cost = scenario_cost s + total_year_cost,
          scenario_detail = scenario_detail s @
            [\<lparr>Year = int year + 1, Stock_Sold = stock_sold, LOC_Used = loc_used,
              Tax_Paid = tax_paid, Interest_Paid = interest_paid,
              Total_Cost = total_year_cost\<rparr>]\<rparr>)"

text \<open>
  The loop over the years, cut after its first \<open>n\<close> rounds: the state reached from
  the values assigned before the loop (\<open>remaining0\<close> is \<open>remaining\<close> as computed for
  the scenario).
\<close>

definition run_years ::
  "real \<Rightarrow> real \<Rightarrow> real \<Rightarrow> real \<Rightarrow> real \<Rightarrow> real \<Rightarrow> real \<Rightarrow> nat \<Rightarrow> loop_state" where
  "run_years total_amount stock_value capital_gain interest_rate first_year_sale yearly_sale
     remaining0 n =
     foldl (year_body total_amount stock_value capital_gain interest_rate
              first_year_sale yearly_sale)
       \<lparr>remaining = remaining0, loc_balance = total_amount,
        scenario_cost = 0, scenario_detail = []\<rparr>
       [0..<n]"

text \<open>
  The state of the scenario that sells \<open>first_year_sale\<close> in year 1 after its first
  \<open>n\<close> years; \<open>range(years)\<close> has \<open>nat years\<close> elements.
\<close>

definition scenario_state ::
  "real \<Rightarrow> real \<Rightarrow> real \<Rightarrow> real \<Rightarrow> int \<Rightarrow> real \<Rightarrow> nat \<Rightarrow> loop_state" where
  "scenario_state total_amount stock_value capital_gain interest_rate years first_year_sale n =
     (let remaining0 = stock_value - first_year_sale;
          yearly_sale = (if years > 1 then remaining0 / real_of_int (years - 1) else 0)
      in run_years total_amount stock_value capital_gain interest_rate first_year_sale
           yearly_sale remaining0 n)"

text \<open>One pass of the outer loop: the pair appended to \<open>scenarios\<close>.\<close>

definition evaluate_scenario ::
  "real \<Rightarrow> real \<Rightarrow> real \<Rightarrow> real \<Rightarrow> int \<Rightarrow> real \<Rightarrow> real \<times> yearly_record list" where
  "evaluate_scenario total_amount stock_value capital_gain interest_rate years first_year_sale =
     (let s = scenario_state total_amount stock_value capital_gain interest_rate years
                first_year_sale (nat years)
      in (scenario_cost s, scenario_detail s))"

text \<open>
  The values the outer loop runs over: \<open>step = stock_value / 10\<close> and the stop bound
  \<open>stock_value + step\<close> are Python floats.
\<close>

definition first_year_sales :: "real \<Rightarrow> py_error + real list" where
  "first_year_sales stock_value =
     (let step = round_double (stock_value / 10)
      in arange 0 (round_double (stock_value + step)) step)"

definition scenarios ::
  "real \<Rightarrow> real \<Rightarrow> real \<Rightarrow> real \<Rightarrow> int \<Rightarrow> py_error + (real \<times> yearly_record list) list" where
  "scenarios total_amount stock_value capital_gain interest_rate years =
     (case first_year_sales stock_value of
        Inl e \<Rightarrow> Inl e
      | Inr sales \<Rightarrow>
          Inr (map (evaluate_scenario total_amount stock_value capital_gain interest_rate years)
                 sales))"

text \<open>
  \<open>min(scenarios, key=lambda x: x[0])\<close>: the first element of least cost; Python raises
  \<open>ValueError\<close> on an empty sequence.
\<close>

fun min_by_cost :: "(real \<times> 'a) list \<Rightarrow> py_error + (real \<times> 'a)" where
  "min_by_cost [] = Inl ValueError"
| "min_by_cost (x # xs) =
     Inr (foldl (\<lambda>best s. if fst s < fst best then s else best) x xs)"

definition optimize_funding_mix ::
  "real \<Rightarrow> real \<Rightarrow> real \<Rightarrow> real \<Rightarrow> int \<Rightarrow> py_error + yearly_record list" where
  "optimize_funding_mix total_amount stock_value capital_gain interest_rate years =
     (case scenarios total_amount stock_value capital_gain interest_rate years of
        Inl e \<Rightarrow> Inl e
      | Inr scs \<Rightarrow>
          (case min_by_cost scs of
             Inl e \<Rightarrow> Inl e
           | Inr optimal_scenario \<Rightarrow> Inr (snd optimal_scenario)))"

section \<open>Evaluating the tax calculator\<close>

lemma federal_tax_eval:
  "calculate_bracket_tax a federal_brackets federal_rates =
     (case bracket_loop federal_brackets federal_rates [0, 1, 2, 3] (0, a) of
        (tax, rem) \<Rightarrow> if rem > 0 then tax + rem * (33 / 100) else tax)"
  by (simp add: calculate_bracket_tax_def federal_brackets_def federal_rates_def upt_rec)

lemma bc_tax_eval:
  "calculate_bracket_tax a bc_brackets bc_rates =
     (case bracket_loop bc_brackets bc_rates [0, 1, 2, 3, 4, 5] (0, a) of
        (tax, rem) \<Rightarrow> if rem > 0 then tax + rem * (205 / 1000) else tax)"
  by (simp add: calculate_bracket_tax_def bc_brackets_def bc_rates_def upt_rec)

lemmas tax_eval = calculate_tax_impact_def federal_tax_eval bc_tax_eval

lemmas tax_tables = federal_brackets_def federal_rates_def bc_brackets_def bc_rates_def

text \<open>
  Below the first provincial threshold both walks stop in their first bracket, and the
  amount is charged at that bracket's rate and again at the last rate of the table.
\<close>

lemma tax_first_bracket:
  "0 \<le> g \<Longrightarrow> g \<le> 91308 \<Longrightarrow> calculate_tax_impact g p = g * (3678 / 10000)"
  unfolding tax_eval by (simp add: tax_tables Let_def)

text \<open>A gain that is not positive leaves both walks in their first round.\<close>

lemma tax_negative_gain: "g \<le> 0 \<Longrightarrow> calculate_tax_impact g p = g * (1003 / 10000)"
  unfolding tax_eval by (simp add: tax_tables Let_def)

lemma bracket_loop_nonneg:
  "0 \<le> tax \<Longrightarrow> 0 \<le> rem \<Longrightarrow>
   \<forall>i\<in>set is. 0 \<le> rates ! i \<and> 0 \<le> brackets ! (i + 1) - brackets ! i \<Longrightarrow>
   0 \<le> fst (bracket_loop brackets rates is (tax, rem)) \<and>
   0 \<le> snd (bracket_loop brackets rates is (tax, rem))"
proof (induction "is" arbitrary: tax rem)
  case Nil
  then show ?case by simp
next
  case (Cons i "is")
  let ?size = "brackets ! (i + 1) - brackets ! i"
  from Cons.prems have r: "0 \<le> rates ! i" and sz: "0 \<le> ?size" by simp_all
  show ?case
  proof (cases "rem > ?size")
    case True
    have "0 \<le> tax + ?size * rates ! i" using Cons.prems(1) r sz by simp
    moreover have "0 \<le> rem - ?size" using True by simp
    ultimately show ?thesis using Cons.IH Cons.prems(3) True by (simp add: Let_def)
  next
    case False
    then show ?thesis using Cons.prems(1,2) r by (simp add: Let_def)
  qed
qed

lemma calculate_bracket_tax_nonneg:
  assumes "0 \<le> amount" and "0 \<le> last rates"
    and "\<forall>i\<in>set [0..<length brackets - 1].
           0 \<le> rates ! i \<and> 0 \<le> brackets ! (i + 1) - brackets ! i"
  shows "0 \<le> calculate_bracket_tax amount brackets rates"
proof -
  obtain tax rem where
    l: "bracket_loop brackets rates [0..<length brackets - 1] (0, amount) = (tax, rem)"
    by (cases "bracket_loop brackets rates [0..<length brackets - 1] (0, amount)")
  from bracket_loop_nonneg [of 0 amount "[0..<length brackets - 1]" rates brackets] assms l
  have "0 \<le> tax" "0 \<le> rem" by simp_all
  then show ?thesis using assms(2) l by (simp add: calculate_bracket_tax_def)
qed

lemma calculate_tax_impact_nonneg: "0 \<le> g \<Longrightarrow> 0 \<le> calculate_tax_impact g p"
proof -
  assume g: "0 \<le> g"
  have f: "0 \<le> calculate_bracket_tax (g * (1 / 2)) federal_brackets federal_rates"
    by (rule calculate_bracket_tax_nonneg)
       (use g in \<open>simp_all add: federal_brackets_def federal_rates_def upt_rec\<close>)
  have b: "0 \<le> calculate_bracket_tax (g * (1 / 2)) bc_brackets bc_rates"
    by (rule calculate_bracket_tax_nonneg)
       (use g in \<open>simp_all add: bc_brackets_def bc_rates_def upt_rec\<close>)
  show ?thesis using f b by (simp add: calculate_tax_impact_def Let_def)
qed

section \<open>The loop over the years\<close>

lemma run_years_0:
  "run_years T sv g r f ys r0 0 =
     \<lparr>remaining = r0, loc_balance = T, scenario_cost = 0, scenario_detail = []\<rparr>"
  by (simp add: run_years_def)

lemma run_years_Suc:
  "run_years T sv g r f ys r0 (Suc n) = year_body T sv g r f ys (run_years T sv g r f ys r0 n) n"
  by (simp add: run_years_def)

lemma year_body_detail:
  "scenario_detail (year_body T sv g r f ys s y) =
     scenario_detail s @ [last (scenario_detail (year_body T sv g r f ys s y))]"
  by (simp add: year_body_def Let_def)

lemma year_body_sold:
  "Stock_Sold (last (scenario_detail (year_body T sv g r f ys s y))) =
     (if y = 0 then f else min ys (remaining s))"
  by (simp add: year_body_def Let_def)

lemma year_body_loc_used:
  "LOC_Used (last (scenario_detail (year_body T sv g r f ys s y))) =
     T - Stock_Sold (last (scenario_detail (year_body T sv g r f ys s y)))"
  by (simp add: year_body_def Let_def)

lemma year_body_interest:
  "Interest_Paid (last (scenario_detail (year_body T sv g r f ys s y))) = loc_balance s * r"
  by (simp add: year_body_def Let_def)

lemma year_body_tax:
  "Tax_Paid (last (scenario_detail (year_body T sv g r f ys s y))) =
     calculate_tax_impact
       (if sv > 0
        then Stock_Sold (last (scenario_detail (year_body T sv g r f ys s y))) / sv * g
        else 0) ''BC''"
  by (simp add: year_body_def Let_def)

lemma year_body_loc_balance:
  "loc_balance (year_body T sv g r f ys s y) =
     T - Stock_Sold (last (scenario_detail (year_body T sv g r f ys s y)))"
  by (simp add: year_body_def Let_def)

lemma year_body_remaining:
  "remaining (year_body T sv g r f ys s y) =
     (if y = 0 then remaining s else remaining s - min ys (remaining s))"
  by (simp add: year_body_def Let_def)

lemma length_run_years: "length (scenario_detail (run_years T sv g r f ys r0 n)) = n"
proof (induction n)
  case 0
  show ?case by (simp add: run_years_0)
next
  case (Suc n)
  show ?case
    by (subst run_years_Suc, subst year_body_detail) (simp add: Suc.IH)
qed

text \<open>The record of year \<open>y + 1\<close> is the one appended in round \<open>y\<close>, whatever follows.\<close>

lemma nth_run_years:
  "y < n \<Longrightarrow>
   scenario_detail (run_years T sv g r f ys r0 n) ! y =
     last (scenario_detail (run_years T sv g r f ys r0 (Suc y)))"
proof (induction n)
  case 0
  then show ?case by simp
next
  case (Suc n)
  let ?s = "run_years T sv g r f ys r0 n"
  have d: "scenario_detail (run_years T sv g r f ys r0 (Suc n)) =
      scenario_detail ?s @ [last (scenario_detail (run_years T sv g r f ys r0 (Suc n)))]"
    by (subst run_years_Suc, subst year_body_detail) (simp add: run_years_Suc)
  show ?case
  proof (cases "y < n")
    case True
    then show ?thesis using Suc.IH
      by (subst d) (simp add: nth_append length_run_years)
  next
    case False
    with Suc.prems have "y = n" by simp
    then show ?thesis
      by (subst d) (simp add: nth_append length_run_years)
  qed
qed


lemma loc_used_run_years:
  "y < n \<Longrightarrow>
   LOC_Used (scenario_detail (run_years T sv g r f ys r0 n) ! y) =
     T - Stock_Sold (scenario_detail (run_years T sv g r f ys r0 n) ! y)"
  by (simp add: nth_run_years run_years_Suc year_body_loc_used)

lemma tax_run_years:
  "y < n \<Longrightarrow>
   Tax_Paid (scenario_detail (run_years T sv g r f ys r0 n) ! y) =
     calculate_tax_impact
       (if sv > 0 then Stock_Sold (scenario_detail (run_years T sv g r f ys r0 n) ! y) / sv * g
        else 0) ''BC''"
  by (simp only: nth_run_years run_years_Suc year_body_tax)

lemma interest_run_years:
  "y < n \<Longrightarrow>
   Interest_Paid (scenario_detail (run_years T sv g r f ys r0 n) ! y) =
     loc_balance (run_years T sv g r f ys r0 y) * r"
  by (simp add: nth_run_years run_years_Suc year_body_interest)

lemma loc_balance_run_years:
  "y < n \<Longrightarrow>
   loc_balance (run_years T sv g r f ys r0 (Suc y)) =
     T - Stock_Sold (scenario_detail (run_years T sv g r f ys r0 n) ! y)"
  by (simp add: nth_run_years run_years_Suc year_body_loc_balance)

lemma first_sold_run_years:
  "0 < n \<Longrightarrow> Stock_Sold (scenario_detail (run_years T sv g r f ys r0 n) ! 0) = f"
  by (simp add: nth_run_years run_years_Suc year_body_sold)

text \<open>
  While the even share fits into what is left, the cap \<open>min(yearly_sale, remaining)\<close>
  does not bite: each later year sells the share.
\<close>

lemma remaining_run_years:
  "0 \<le> ys \<Longrightarrow> real n * ys \<le> r0 \<Longrightarrow>
   remaining (run_years T sv g r f ys r0 (Suc n)) = r0 - real n * ys"
proof (induction n)
  case 0
  show ?case by (simp add: run_years_Suc run_years_0 year_body_remaining)
next
  case (Suc n)
  from Suc.prems have le: "real n * ys + ys \<le> r0" by (simp add: algebra_simps)
  with Suc.prems(1) have "real n * ys \<le> r0" by linarith
  with Suc.IH Suc.prems(1)
  have rem: "remaining (run_years T sv g r f ys r0 (Suc n)) = r0 - real n * ys" by simp
  have "min ys (r0 - real n * ys) = ys" using le by simp
  then show ?case
    by (subst run_years_Suc) (simp add: year_body_remaining rem algebra_simps)
qed

lemma later_sold_run_years:
  assumes "0 \<le> ys" and "real y * ys \<le> r0" and "0 < y" and "y < n"
  shows "Stock_Sold (scenario_detail (run_years T sv g r f ys r0 n) ! y) = ys"
proof -
  from \<open>0 < y\<close> obtain k where k: "y = Suc k" by (cases y) simp_all
  from assms(1,2) k have le: "real k * ys + ys \<le> r0" by (simp add: algebra_simps)
  with assms(1) have "real k * ys \<le> r0" by linarith
  with assms(1) have rem: "remaining (run_years T sv g r f ys r0 (Suc k)) = r0 - real k * ys"
    by (rule remaining_run_years)
  have "min ys (r0 - real k * ys) = ys" using le by simp
  then show ?thesis using \<open>y < n\<close>
    by (simp add: nth_run_years k run_years_Suc [of _ _ _ _ _ _ _ "Suc k"] year_body_sold rem)
qed

section \<open>Selecting the cheapest scenario\<close>



section \<open>Rounding\<close>







section \<open>The first-year sales\<close>



section \<open>Scenarios\<close>

lemma snd_evaluate_scenario:
  "snd (evaluate_scenario T sv g r years f) =
     scenario_detail (scenario_state T sv g r years f (nat years))"
  by (simp add: evaluate_scenario_def Let_def)

lemma length_evaluate_scenario: "length (snd (evaluate_scenario T sv g r years f)) = nat years"
  by (simp add: snd_evaluate_scenario scenario_state_def Let_def length_run_years)

lemma scenarios_members:
  assumes "scenarios T sv g r years = Inr scs" and "sc \<in> set scs"
  shows "\<exists>f. sc = evaluate_scenario T sv g r years f"
proof (cases "first_year_sales sv")
  case (Inl e)
  with assms(1) show ?thesis by (simp add: scenarios_def)
next
  case (Inr sales)
  with assms show ?thesis by (auto simp: scenarios_def)
qed

lemma upt_2: "[0..<2] = [0, Suc 0]"
  by (simp add: upt_rec)

lemmas round_double_eval =
  round_double_def exponent_def pow2_def round_half_even_def Let_def compute_bitlen

text \<open>
  For the asset value 50000 the step 5000, the bound 55000 and the quotient 11 are
  doubles: nothing is rounded and there are eleven scenarios.
\<close>

lemma sales_50000:
  "first_year_sales 50000 =
     Inr [0, 5000, 10000, 15000, 20000, 25000, 30000, 35000, 40000, 45000, 50000]"
proof -
  have step: "round_double 5000 = 5000" by (simp add: round_double_eval)
  have stop: "round_double 55000 = 55000" by (simp add: round_double_eval)
  have q: "round_double 11 = 11" by (simp add: round_double_eval)
  show ?thesis
    by (simp add: first_year_sales_def arange_def Let_def step stop q upt_rec)
qed

text \<open>Two years, asset 50000, gain 40000, 10 percent: each scenario in closed form.\<close>

lemma evaluate_two_years:
  assumes "0 \<le> f" and "f \<le> 50000"
  shows "evaluate_scenario T 50000 40000 r 2 f =
     (T * r + (T - f) * r + 14712,
      [\<lparr>Year = 1, Stock_Sold = f, LOC_Used = T - f, Tax_Paid = f * (3678 / 12500),
         Interest_Paid = T * r, Total_Cost = f * (3678 / 12500) + T * r\<rparr>,
       \<lparr>Year = 2, Stock_Sold = 50000 - f, LOC_Used = T - (50000 - f),
         Tax_Paid = (50000 - f) * (3678 / 12500),
         Interest_Paid = (T - f) * r,
         Total_Cost = (50000 - f) * (3678 / 12500) + (T - f) * r\<rparr>])"
  using assms
  by (simp add: evaluate_scenario_def scenario_state_def run_years_def upt_2 year_body_def
      Let_def tax_first_bracket) argo

lemma scenarios_50000:
  "scenarios T 50000 g r years =
     Inr (map (evaluate_scenario T 50000 g r years)
            [0, 5000, 10000, 15000, 20000, 25000, 30000, 35000, 40000, 45000, 50000])"
  by (simp add: scenarios_def sales_50000)

text \<open>
  For the asset value 50004 the step \<open>5000.4\<close> is not a double. The rounded bound
  divided by the rounded step gives a double just above 11, and there are twelve
  scenarios.
\<close>

lemma sales_50004:
  "first_year_sales 50004 =
     Inr (map (\<lambda>k. real k * (2748998971765555 / 549755813888)) [0..<12])"
proof -
  let ?step = "2748998971765555 / 549755813888 :: real"
  let ?stop = "7559747172355277 / 137438953472 :: real"
  let ?q = "6192449487634433 / 562949953421312 :: real"
  have step: "round_double (50004 / 10) = ?step" by (simp add: round_double_eval)
  have stop: "round_double (50004 + ?step) = ?stop" by (simp add: round_double_eval)
  have diff: "round_double (?stop - 0) = ?stop" by (simp add: round_double_eval)
  have q: "round_double (?stop / ?step) = ?q" by (simp add: round_double_eval)
  have len: "nat \<lceil>?q\<rceil> = 12" by simp
  show ?thesis
    by (simp only: first_year_sales_def arange_def Let_def step stop diff q len) simp
qed

lemma evaluate_two_years_50004:
  assumes "0 \<le> f" and "f \<le> 50004"
  shows "evaluate_scenario T 50004 10000 r 2 f =
     (T * r + (T - f) * r + 3678,
      [\<lparr>Year = 1, Stock_Sold = f, LOC_Used = T - f, Tax_Paid = f / 50004 * 3678,
         Interest_Paid = T * r, Total_Cost = f / 50004 * 3678 + T * r\<rparr>,
       \<lparr>Year = 2, Stock_Sold = 50004 - f, LOC_Used = T - (50004 - f),
         Tax_Paid = (50004 - f) / 50004 * 3678,
         Interest_Paid = (T - f) * r,
         Total_Cost = (50004 - f) / 50004 * 3678 + (T - f) * r\<rparr>])"
  using assms
  by (simp add: evaluate_scenario_def scenario_state_def run_years_def upt_2 year_body_def
      Let_def tax_first_bracket) argo

lemma evaluate_two_years_50004_oversold:
  assumes "50004 \<le> f" and "f \<le> 100000"
  shows "evaluate_scenario T 50004 10000 r 2 f =
     (f / 50004 * 3678 + T * r + ((50004 - f) / 50004 * 1003 + (T - f) * r),
      [\<lparr>Year = 1, Stock_Sold = f, LOC_Used = T - f, Tax_Paid = f / 50004 * 3678,
         Interest_Paid = T * r, Total_Cost = f / 50004 * 3678 + T * r\<rparr>,
       \<lparr>Year = 2, Stock_Sold = 50004 - f, LOC_Used = T - (50004 - f),
         Tax_Paid = (50004 - f) / 50004 * 1003,
         Interest_Paid = (T - f) * r,
         Total_Cost = (50004 - f) / 50004 * 1003 + (T - f) * r\<rparr>])"
  using assms
  by (simp add: evaluate_scenario_def scenario_state_def run_years_def upt_2 year_body_def
      Let_def tax_first_bracket tax_negative_gain)

lemma upt_12: "[0..<12] = [0, 1, 2, 3, 4, 5, 6, 7, 8, 9, 10, 11]"
  by (simp add: upt_rec)

lemma scenario_first_sold:
  "0 < nat years \<Longrightarrow> Stock_Sold (snd (evaluate_scenario T sv g r years f) ! 0) = f"
  by (simp add: snd_evaluate_scenario scenario_state_def Let_def first_sold_run_years)

lemma scenario_later_sold:
  assumes "f \<le> sv" and "0 < y" and "y < nat years"
  shows "Stock_Sold (snd (evaluate_scenario T sv g r years f) ! y) =
           (sv - f) / real_of_int (years - 1)"
proof -
  let ?N = "real_of_int (years - 1)"
  from assms(2,3) have years: "1 < years" by linarith
  then have N: "0 < ?N" by simp
  have yN: "real y \<le> ?N" using assms(3) years by linarith
  have r0: "0 \<le> sv - f" using assms(1) by simp
  have ys: "0 \<le> (sv - f) / ?N" using r0 N by simp
  have "real y * ((sv - f) / ?N) \<le> ?N * ((sv - f) / ?N)"
    using yN ys by (rule mult_right_mono)
  also have "\<dots> = sv - f" using N by simp
  finally have le: "real y * ((sv - f) / ?N) \<le> sv - f" .
  show ?thesis
    using years later_sold_run_years [OF ys le assms(2,3), of T sv g r f]
    by (simp add: snd_evaluate_scenario scenario_state_def Let_def)
qed

lemma scenario_loc_used:
  "y < nat years \<Longrightarrow>
   LOC_Used (snd (evaluate_scenario T sv g r years f) ! y) =
     T - Stock_Sold (snd (evaluate_scenario T sv g r years f) ! y)"
  by (simp add: snd_evaluate_scenario scenario_state_def Let_def loc_used_run_years)

lemma scenario_tax:
  "y < nat years \<Longrightarrow>
   Tax_Paid (snd (evaluate_scenario T sv g r years f) ! y) =
     calculate_tax_impact
       (if sv > 0 then Stock_Sold (snd (evaluate_scenario T sv g r years f) ! y) / sv * g
        else 0) ''BC''"
  by (simp only: snd_evaluate_scenario scenario_state_def Let_def tax_run_years)

lemma scenario_interest:
  "y < nat years \<Longrightarrow>
   Interest_Paid (snd (evaluate_scenario T sv g r years f) ! y) =
     loc_balance (scenario_state T sv g r years f y) * r"
  by (simp add: snd_evaluate_scenario scenario_state_def Let_def interest_run_years)

lemma scenario_loc_balance_0: "loc_balance (scenario_state T sv g r years f 0) = T"
  by (simp add: scenario_state_def Let_def run_years_0)

lemma scenario_loc_balance_Suc:
  "y < nat years \<Longrightarrow>
   loc_balance (scenario_state T sv g r years f (Suc y)) =
     T - Stock_Sold (snd (evaluate_scenario T sv g r years f) ! y)"
  by (simp add: snd_evaluate_scenario scenario_state_def Let_def loc_balance_run_years)

lemma upt_1: "[0..<1] = [0]"
  by (simp add: upt_rec)

lemma evaluate_one_year:
  assumes "0 \<le> f" and "f \<le> 50000"
  shows "evaluate_scenario T 50000 40000 r 1 f =
     (f * (3678 / 12500) + T * r,
      [\<lparr>Year = 1, Stock_Sold = f, LOC_Used = T - f, Tax_Paid = f * (3678 / 12500),
         Interest_Paid = T * r, Total_Cost = f * (3678 / 12500) + T * r\<rparr>])"
  using assms
  by (simp add: evaluate_scenario_def scenario_state_def run_years_def year_body_def
      Let_def tax_first_bracket)

section \<open>Claims about the tax calculator\<close>

text \<open>
  C1. The claim: a negative gain is rejected with an error and no amount is returned.
  The code has no check: on the gain \<open>-10000\<close> both walks take the \<open>else\<close> branch of
  their first round and the function returns the negative amount \<open>-1003\<close>.
\<close>

theorem calculate_tax_impact_negative_gain:
  "calculate_tax_impact (- 10000) ''BC'' = - 1003"
  unfolding tax_eval by (simp add: tax_tables Let_def)

text \<open>
  C9. The claim: the tax is non-decreasing in the gain. The code leaves \<open>remaining\<close>
  untouched when it breaks out of the walk, so the amount of the bracket it stops in is
  charged a second time at the last rate; the surcharge falls back to nothing each time
  the gain crosses a threshold. The gains \<open>91308\<close> and \<open>91310\<close> lie on either side of
  the first provincial threshold, and the larger gain pays less.
\<close>

theorem calculate_tax_impact_drops_at_threshold:
  "calculate_tax_impact 91308 ''BC'' = 41978853 / 1250 \<and>
   calculate_tax_impact 91310 ''BC'' = 15140484 / 625 \<and>
   calculate_tax_impact 91310 ''BC'' < calculate_tax_impact 91308 ''BC''"
  unfolding tax_eval by (simp add: tax_tables Let_def)

section \<open>Claims about the optimizer\<close>

text \<open>
  C2, as stated: the credit balance recorded for year \<open>y\<close>, and the balance carried into
  the interest of year \<open>y + 1\<close>, is the expenditure minus everything sold through year
  \<open>y\<close>. The code subtracts the sale of year \<open>y\<close> alone. In the two-year scenario that
  sells 25000 in each year, the second record holds 75000 where the cumulative amount
  would be 50000.
\<close>

theorem credit_balance_not_cumulative:
  "scenarios 100000 50000 40000 (1 / 10) 2 =
     Inr (map (evaluate_scenario 100000 50000 40000 (1 / 10) 2)
            [0, 5000, 10000, 15000, 20000, 25000, 30000, 35000, 40000, 45000, 50000]) \<and>
   map Stock_Sold (snd (evaluate_scenario 100000 50000 40000 (1 / 10) 2 25000)) = [25000, 25000] \<and>
   map LOC_Used (snd (evaluate_scenario 100000 50000 40000 (1 / 10) 2 25000)) = [75000, 75000] \<and>
   LOC_Used (snd (evaluate_scenario 100000 50000 40000 (1 / 10) 2 25000) ! 1) \<noteq>
     100000 - (Stock_Sold (snd (evaluate_scenario 100000 50000 40000 (1 / 10) 2 25000) ! 0) +
               Stock_Sold (snd (evaluate_scenario 100000 50000 40000 (1 / 10) 2 25000) ! 1))"
  by (simp add: scenarios_50000 evaluate_two_years)

text \<open>
  C2, amended: in every evaluated scenario (one per first-year sale \<open>f\<close> of the grid)
  and every year \<open>y\<close> of it, the credit balance recorded for year \<open>y\<close> is the
  expenditure minus the amount sold in year \<open>y\<close> itself, and the balance carried into
  year \<open>y + 1\<close> is that same amount.
\<close>

theorem credit_balance_of_this_year:
  assumes "first_year_sales sv = Inr sales" and "f \<in> set sales" and "y < nat years"
  shows "evaluate_scenario T sv g r years f \<in> set (projr (scenarios T sv g r years)) \<and>
     LOC_Used (snd (evaluate_scenario T sv g r years f) ! y) =
       T - Stock_Sold (snd (evaluate_scenario T sv g r years f) ! y) \<and>
     loc_balance (scenario_state T sv g r years f (Suc y)) =
       T - Stock_Sold (snd (evaluate_scenario T sv g r years f) ! y)"
proof -
  have "scenarios T sv g r years = Inr (map (evaluate_scenario T sv g r years) sales)"
    by (simp add: scenarios_def assms(1))
  then have "evaluate_scenario T sv g r years f \<in> set (projr (scenarios T sv g r years))"
    using assms(2) by simp
  then show ?thesis using assms(3)
    by (simp add: scenario_loc_used scenario_loc_balance_Suc)
qed

theorem credit_balance_of_this_year_witness:
  "first_year_sales 50000 =
     Inr [0, 5000, 10000, 15000, 20000, 25000, 30000, 35000, 40000, 45000, 50000] \<and>
   Stock_Sold (snd (evaluate_scenario 100000 50000 40000 (1 / 10) 2 25000) ! 1) = 25000 \<and>
   LOC_Used (snd (evaluate_scenario 100000 50000 40000 (1 / 10) 2 25000) ! 1) = 75000 \<and>
   loc_balance (scenario_state 100000 50000 40000 (1 / 10) 2 25000 2) = 75000"
proof -
  let ?sc = "evaluate_scenario 100000 50000 40000 (1 / 10) 2 25000"
  have mem: "(25000::real) \<in>
      set [0, 5000, 10000, 15000, 20000, 25000, 30000, 35000, 40000, 45000, 50000]"
    by simp
  have y: "(1::nat) < nat 2" by simp
  have sold: "Stock_Sold (snd ?sc ! 1) = 25000" by (simp add: evaluate_two_years)
  from credit_balance_of_this_year [OF sales_50000 mem y, of 100000 40000 "1 / 10"]
  have "LOC_Used (snd ?sc ! 1) = 100000 - Stock_Sold (snd ?sc ! 1)"
    and "loc_balance (scenario_state 100000 50000 40000 (1 / 10) 2 25000 (Suc 1)) =
      100000 - Stock_Sold (snd ?sc ! 1)"
    by simp_all
  then show ?thesis using sold sales_50000 by (simp add: numeral_2_eq_2)
qed

text \<open>
  C3. The claim: for expenditure 100000, asset 50000, gain 40000, rate 0.10 and two
  years, the first record of the optimum has interest \<open>(100000 - sold) * 0.10\<close>. The
  code charges the first year on the whole expenditure: the optimum sells 50000 in
  year 1 and its first record carries the interest 10000, not 5000.
\<close>

theorem optimize_funding_mix_interest_test_configuration:
  "optimize_funding_mix 100000 50000 40000 (1 / 10) 2 =
     Inr [\<lparr>Year = 1, Stock_Sold = 50000, LOC_Used = 50000, Tax_Paid = 14712,
           Interest_Paid = 10000, Total_Cost = 24712\<rparr>,
          \<lparr>Year = 2, Stock_Sold = 0, LOC_Used = 100000, Tax_Paid = 0,
           Interest_Paid = 5000, Total_Cost = 5000\<rparr>] \<and>
   Interest_Paid \<lparr>Year = 1, Stock_Sold = 50000, LOC_Used = 50000, Tax_Paid = 14712,
           Interest_Paid = 10000, Total_Cost = 24712\<rparr> \<noteq>
     (100000 - Stock_Sold \<lparr>Year = 1, Stock_Sold = 50000, LOC_Used = 50000, Tax_Paid = 14712,
           Interest_Paid = 10000, Total_Cost = 24712\<rparr>) * (1 / 10)"
  by (simp add: optimize_funding_mix_def scenarios_def sales_50000 evaluate_two_years)

text \<open>
  C4. The claim: for a horizon of at least one year and a positive asset value, the
  amounts sold in the returned schedule add up to the asset value, and with one year
  the whole asset is sold in year 1. With one year the code sells the first-year amount
  of the cheapest scenario and nothing else; for expenditure 100000, asset 50000, gain
  40000 and rate 0.10 that scenario sells nothing.
\<close>

theorem one_year_optimum_sells_nothing:
  "(1::int) \<le> 1 \<and> (0::real) < 50000 \<and>
   optimize_funding_mix 100000 50000 40000 (1 / 10) 1 =
     Inr [\<lparr>Year = 1, Stock_Sold = 0, LOC_Used = 100000, Tax_Paid = 0,
           Interest_Paid = 10000, Total_Cost = 10000\<rparr>] \<and>
   \<not> \<bar>sum_list (map Stock_Sold
          [\<lparr>Year = 1, Stock_Sold = 0, LOC_Used = 100000, Tax_Paid = 0,
            Interest_Paid = 10000, Total_Cost = 10000\<rparr>]) - 50000\<bar> \<le> 1 / 100"
  by (simp add: optimize_funding_mix_def scenarios_50000 evaluate_one_year)

text \<open>
  C5. The claim: for a horizon of at least one year and a positive asset value, the
  four amounts of every returned record are non-negative. For expenditure 100000, asset
  50004, gain 10000, rate 0.2 and two years the code generates a twelfth scenario, which
  sells eleven steps (more than the asset) in year 1 and is the cheapest: the returned
  second record sells about -5000.4 and pays a tax of about -100.3.
\<close>

theorem optimum_sells_negative_amount:
  "optimize_funding_mix 100000 50004 10000 (1 / 5) 2 =
     Inr (snd (evaluate_scenario 100000 50004 10000 (1 / 5) 2
                 (11 * (2748998971765555 / 549755813888)))) \<and>
   - 5001 < Stock_Sold (snd (evaluate_scenario 100000 50004 10000 (1 / 5) 2
                 (11 * (2748998971765555 / 549755813888))) ! 1) \<and>
   Stock_Sold (snd (evaluate_scenario 100000 50004 10000 (1 / 5) 2
                 (11 * (2748998971765555 / 549755813888))) ! 1) < - 5000 \<and>
   - 101 < Tax_Paid (snd (evaluate_scenario 100000 50004 10000 (1 / 5) 2
                 (11 * (2748998971765555 / 549755813888))) ! 1) \<and>
   Tax_Paid (snd (evaluate_scenario 100000 50004 10000 (1 / 5) 2
                 (11 * (2748998971765555 / 549755813888))) ! 1) < - 100"
  by (simp add: optimize_funding_mix_def scenarios_def sales_50004 upt_12
      evaluate_two_years_50004 evaluate_two_years_50004_oversold)

text \<open>
  C6. The claim: an asset value of zero raises no error. With \<open>stock_value = 0\<close> the
  step is zero and generating the first-year sales divides by it, before the guard on
  \<open>stock_value > 0\<close> in the loop is ever reached.
\<close>

theorem optimize_funding_mix_zero_asset_raises:
  "optimize_funding_mix total_amount 0 capital_gain interest_rate years = Inl ZeroDivisionError"
  by (simp add: optimize_funding_mix_def scenarios_def first_year_sales_def arange_def
      round_double_def)




text \<open>
  C8. The claim: for a positive asset value there are exactly eleven scenarios, selling
  \<open>0, step, ..., 10 * step\<close> in year 1. For the asset value 50004 the quotient that
  \<open>numpy.arange\<close> rounds up is the double just above 11: the code generates twelve
  scenarios, and the twelfth sells \<open>11 * step\<close>, more than the asset.
\<close>

theorem twelve_scenarios_for_50004:
  "first_year_sales 50004 =
     Inr (map (\<lambda>k. real k * (2748998971765555 / 549755813888)) [0..<12]) \<and>
   length (projr (scenarios total_amount 50004 capital_gain interest_rate years)) = 12 \<and>
   (50004::real) < 11 * (2748998971765555 / 549755813888)"
  by (simp add: scenarios_def sales_50004)

text \<open>
  C10. In every generated scenario, the interest of year 1 is the expenditure times the
  rate, whatever is sold in year 1, and the interest of each later year is the
  expenditure minus the sale of the year just before, times the rate.
\<close>

theorem interest_on_previous_year_balance:
  assumes "scenarios T sv g r years = Inr scs" and "sc \<in> set scs"
  shows "length (snd sc) = nat years \<and>
     (0 < years \<longrightarrow> Interest_Paid (snd sc ! 0) = T * r) \<and>
     (\<forall>y. 1 \<le> y \<and> y < nat years \<longrightarrow>
        Interest_Paid (snd sc ! y) = (T - Stock_Sold (snd sc ! (y - 1))) * r)"
proof -
  from scenarios_members [OF assms] obtain f where sc: "sc = evaluate_scenario T sv g r years f" ..
  have a: "length (snd sc) = nat years" by (simp add: sc length_evaluate_scenario)
  have b: "Interest_Paid (snd sc ! 0) = T * r" if "0 < years"
    using that by (simp add: sc scenario_interest scenario_loc_balance_0)
  have c: "Interest_Paid (snd sc ! y) = (T - Stock_Sold (snd sc ! (y - 1))) * r"
    if "1 \<le> y" and "y < nat years" for y
  proof -
    from that(1) obtain k where k: "y = Suc k" by (cases y) simp_all
    with that(2) have "k < nat years" by simp
    then show ?thesis using that(2)
      by (simp add: sc k scenario_interest scenario_loc_balance_Suc)
  qed
  from a b c show ?thesis by blast
qed

theorem interest_on_previous_year_balance_witness:
  "Interest_Paid (snd (evaluate_scenario 100000 50000 40000 (1 / 10) 2 25000) ! 0) = 10000 \<and>
   Interest_Paid (snd (evaluate_scenario 100000 50000 40000 (1 / 10) 2 25000) ! 1) = 7500 \<and>
   Stock_Sold (snd (evaluate_scenario 100000 50000 40000 (1 / 10) 2 25000) ! 0) = 25000"
proof -
  let ?sc = "evaluate_scenario 100000 50000 40000 (1 / 10) 2 25000"
  have scs: "scenarios 100000 50000 40000 (1 / 10) 2 =
      Inr (map (evaluate_scenario 100000 50000 40000 (1 / 10) 2)
            [0, 5000, 10000, 15000, 20000, 25000, 30000, 35000, 40000, 45000, 50000])"
    by (rule scenarios_50000)
  have mem: "?sc \<in> set (map (evaluate_scenario 100000 50000 40000 (1 / 10) 2)
            [0, 5000, 10000, 15000, 20000, 25000, 30000, 35000, 40000, 45000, 50000])"
    by simp
  have sold: "Stock_Sold (snd ?sc ! 0) = 25000" by (simp add: scenario_first_sold)
  from interest_on_previous_year_balance [OF scs mem]
  have "Interest_Paid (snd ?sc ! 0) = 100000 * (1 / 10)"
    and "Interest_Paid (snd ?sc ! 1) = (100000 - Stock_Sold (snd ?sc ! (1 - 1))) * (1 / 10)"
    by simp_all
  with sold show ?thesis by simp
qed

end
